theory Spec2Isabelle
  imports Complex_Main "HOL-Library.Word"
begin

section \<open>The smart cane sketch (code.ino)\<close>

text \<open>
  The sketch is one Arduino program: \<open>setup\<close> runs once, then \<open>loop\<close> runs
  again and again. Every library call is an effect on the board; the model records each
  call in a trace, in program order, and keeps the levels of the outputs the sketch
  drives. What the board hands back (pin levels, the clock, sensor readings) is an input
  of the iteration.
\<close>

subsection \<open>The platform\<close>

text \<open>
  Two things the sketch leaves to the board it is compiled for: the width of \<open>int\<close>
  (16 bits on the AVR boards, 32 bits on the ARM boards) and the floating-point formats
  behind \<open>double\<close> and \<open>float\<close> (on AVR both are the 32-bit format). A
  format is given by its rounding, the function from the exact result of an operation to
  the number stored. \<open>long\<close> has 32 bits on all of them.
\<close>

record platform =
  int_bits :: nat
  double_round :: "real \<Rightarrow> real"
  float_round :: "real \<Rightarrow> real"

text \<open>
  A value of type \<open>int\<close>: the result of an arithmetic operation is reduced to
  \<open>int_bits\<close> bits in two's complement, which is what the add and negate
  instructions of the boards produce.
\<close>

definition c_int :: "platform \<Rightarrow> int \<Rightarrow> int" where
  "c_int pf v = signed_take_bit (int_bits pf - 1) v"

text \<open>Arduino.h: \<^verbatim>\<open>#define abs(x) ((x)>0?(x):-(x))\<close>, on an operand promoted to int.\<close>

definition arduino_abs :: "platform \<Rightarrow> int \<Rightarrow> int" where
  "arduino_abs pf x = (if x > 0 then x else c_int pf (- x))"

text \<open>
  Rounding to the nearest number with a significand of \<open>p\<close> bits, ties to the even
  significand: 24 bits is the 32-bit format, 53 bits the 64-bit format. The exponent is
  not bounded here (no overflow to infinity, no subnormal numbers); the numbers the sketch
  computes, from 0.017 up to the 32-bit range of \<open>long\<close>, are far inside the range
  of both formats.
\<close>

definition round_half_even :: "real \<Rightarrow> int" where
  "round_half_even y =
     (let f = \<lfloor>y\<rfloor>; d = y - of_int f
      in if d < 1 / 2 then f else if 1 / 2 < d then f + 1 else if even f then f else f + 1)"

definition binary_exponent :: "real \<Rightarrow> int" where
  "binary_exponent x = \<lfloor>log 2 \<bar>x\<bar>\<rfloor>"

definition binary_round :: "nat \<Rightarrow> real \<Rightarrow> real" where
  "binary_round p x =
     (if x = 0 then 0
      else (let u = 2 powr of_int (binary_exponent x - int p + 1)
            in sgn x * (of_int (round_half_even (\<bar>x\<bar> / u)) * u)))"

text \<open>
  The two families of boards. \<open>avr\<close> is the Uno, Nano and Mega, whose pin numbers
  and 10-bit converter the sketch is written for: \<open>int\<close> has 16 bits and
  \<open>double\<close> is \<open>float\<close>. \<open>arm32\<close> stands for the 32-bit boards.
\<close>

definition avr :: platform where
  "avr = \<lparr>int_bits = 16, double_round = binary_round 24, float_round = binary_round 24\<rparr>"

definition arm32 :: platform where
  "arm32 = \<lparr>int_bits = 32, double_round = binary_round 53, float_round = binary_round 24\<rparr>"

subsection \<open>Floating-point readings\<close>

text \<open>
  A \<open>float\<close> is a finite number, an infinity or not-a-number. Comparisons are the
  IEEE ones: any comparison with not-a-number is false.
\<close>

datatype cfloat = Finite real | PosInf | NegInf | NaN

fun isnan :: "cfloat \<Rightarrow> bool" where
  "isnan NaN = True"
| "isnan _ = False"

fun f_less :: "cfloat \<Rightarrow> cfloat \<Rightarrow> bool" where
  "f_less NaN _ = False"
| "f_less _ NaN = False"
| "f_less (Finite x) (Finite y) = (x < y)"
| "f_less (Finite x) PosInf = True"
| "f_less (Finite x) NegInf = False"
| "f_less PosInf _ = False"
| "f_less NegInf NegInf = False"
| "f_less NegInf _ = True"

definition f_greater :: "cfloat \<Rightarrow> cfloat \<Rightarrow> bool" where
  "f_greater a b = f_less b a"

fun f_le :: "cfloat \<Rightarrow> cfloat \<Rightarrow> bool" where
  "f_le NaN _ = False"
| "f_le _ NaN = False"
| "f_le (Finite x) (Finite y) = (x \<le> y)"
| "f_le (Finite x) PosInf = True"
| "f_le (Finite x) NegInf = False"
| "f_le PosInf PosInf = True"
| "f_le PosInf _ = False"
| "f_le NegInf _ = True"

text \<open>An integer constant compared with a float is converted to the float first.\<close>

definition of_c_int :: "int \<Rightarrow> cfloat" where
  "of_c_int n = Finite (of_int n)"

subsection \<open>Thresholds\<close>

definition DISTANCE_THRESHOLD :: int where "DISTANCE_THRESHOLD = 30"
definition TEMP_MIN :: int where "TEMP_MIN = 0"
definition TEMP_MAX :: int where "TEMP_MAX = 45"
definition LIGHT_THRESHOLD :: int where "LIGHT_THRESHOLD = 400"
definition HUMIDITY_MIN :: int where "HUMIDITY_MIN = 30"
definition HUMIDITY_MAX :: int where "HUMIDITY_MAX = 60"
definition ACCEL_THRESHOLD :: int where "ACCEL_THRESHOLD = 15000"
definition CHECK_INTERVAL :: "32 word" where "CHECK_INTERVAL = 500"

subsection \<open>The alert conditions of loop (lines 110 to 119)\<close>

text \<open>
  \<^verbatim>\<open>long totalAccel = abs(ax) + abs(ay) + abs(az);\<close>
  The three readings are \<open>int16_t\<close>; each is promoted to \<open>int\<close>, the macro and
  the two additions work in \<open>int\<close>, and only the finished sum is widened to
  \<open>long\<close>.
\<close>

definition totalAccel :: "platform \<Rightarrow> 16 word \<Rightarrow> 16 word \<Rightarrow> 16 word \<Rightarrow> int" where
  "totalAccel pf ax ay az =
     c_int pf (c_int pf (arduino_abs pf (sint ax) + arduino_abs pf (sint ay))
               + arduino_abs pf (sint az))"

definition distanceAlert :: "cfloat \<Rightarrow> bool" where
  "distanceAlert distance =
     (f_greater distance (of_c_int 0) \<and> f_less distance (of_c_int DISTANCE_THRESHOLD))"

definition humidityAlert :: "cfloat \<Rightarrow> bool" where
  "humidityAlert humidity =
     (f_less humidity (of_c_int HUMIDITY_MIN) \<or> f_greater humidity (of_c_int HUMIDITY_MAX))"

definition tempAlert :: "cfloat \<Rightarrow> bool" where
  "tempAlert temperature =
     (\<not> isnan temperature \<and>
      (f_less temperature (of_c_int TEMP_MIN) \<or> f_greater temperature (of_c_int TEMP_MAX)))"

definition lightAlert :: "int \<Rightarrow> bool" where
  "lightAlert lightLevel = (lightLevel < LIGHT_THRESHOLD)"

definition motionAlert :: "int \<Rightarrow> bool" where
  "motionAlert accel = (accel > ACCEL_THRESHOLD)"

definition alertTriggered :: "bool \<Rightarrow> bool \<Rightarrow> bool \<Rightarrow> bool \<Rightarrow> bool \<Rightarrow> bool \<Rightarrow> bool" where
  "alertTriggered buttonPressed distanceA tempA lightA humidityA motionA =
     (buttonPressed \<or> distanceA \<or> tempA \<or> lightA \<or> humidityA \<or> motionA)"

subsection \<open>The board: pins, library calls, outputs\<close>

text \<open>The pins the sketch names (8, 9, 10, 6, 7, 2 and A0 in the source).\<close>

datatype pin = DHTPIN | TRIG_PIN | ECHO_PIN | BUZZER_PIN | LED_RED | BUTTON_PIN | LDR_PIN

datatype level = LOW | HIGH

datatype pin_mode = INPUT | OUTPUT | INPUT_PULLUP

text \<open>What is printed: a flash string, a float, an integer, or the end of a line.\<close>

datatype item = Str string | Flt cfloat | Num int | EOL

datatype call =
    SerialBegin nat
  | WireBegin
  | DhtBegin
  | MpuInitialize
  | MpuTestConnection
  | MpuGetAcceleration
  | DhtReadTemperature
  | DhtReadHumidity
  | PinMode pin pin_mode
  | DigitalRead pin
  | DigitalWrite pin level
  | AnalogRead pin
  | PulseIn pin level nat
  | Millis
  | Delay nat
  | DelayMicroseconds nat
  | Tone pin nat nat
  | NoTone pin
  | SerialPrint item
  | SerialPrintln item
  | DisplayBegin
  | DisplayClearDisplay
  | DisplaySetTextSize nat
  | DisplaySetTextColor
  | DisplaySetCursor nat nat
  | DisplayPrint item
  | DisplayPrintln item
  | DisplayDrawLine nat nat nat nat
  | DisplayDisplay

text \<open>
  The sketch's two globals, the outputs it drives, and the trace of every call made so
  far. \<open>oled_buffer\<close> holds what was drawn since the last \<open>clearDisplay\<close>;
  \<open>oled_panel\<close> is the buffer as last sent by \<open>display()\<close>, what the user
  sees. \<open>tone_playing\<close> is the tone started and not yet stopped by \<open>noTone\<close>
  (the 300 ms the source asks for end it earlier on the board; the model keeps it until
  it is stopped).
\<close>

record cane =
  lastCheck :: "32 word"
  buttonPressed :: bool
  outputs :: "pin \<Rightarrow> level"
  tone_playing :: "(pin \<times> nat \<times> nat) option"
  oled_buffer :: "call list"
  oled_panel :: "call list"
  serial :: "item list"
  trace :: "call list"

definition called :: "call \<Rightarrow> cane \<Rightarrow> cane" where
  "called c s = s\<lparr>trace := trace s @ [c]\<rparr>"

definition pinMode :: "pin \<Rightarrow> pin_mode \<Rightarrow> cane \<Rightarrow> cane" where
  "pinMode p m s = called (PinMode p m) s"

definition digitalRead :: "pin \<Rightarrow> cane \<Rightarrow> cane" where
  "digitalRead p s = called (DigitalRead p) s"

definition digitalWrite :: "pin \<Rightarrow> level \<Rightarrow> cane \<Rightarrow> cane" where
  "digitalWrite p l s = called (DigitalWrite p l) (s\<lparr>outputs := (outputs s)(p := l)\<rparr>)"

definition analogRead :: "pin \<Rightarrow> cane \<Rightarrow> cane" where
  "analogRead p s = called (AnalogRead p) s"

definition pulseIn :: "pin \<Rightarrow> level \<Rightarrow> nat \<Rightarrow> cane \<Rightarrow> cane" where
  "pulseIn p l timeout s = called (PulseIn p l timeout) s"

definition millis :: "cane \<Rightarrow> cane" where
  "millis s = called Millis s"

definition delay :: "nat \<Rightarrow> cane \<Rightarrow> cane" where
  "delay ms s = called (Delay ms) s"

definition delayMicroseconds :: "nat \<Rightarrow> cane \<Rightarrow> cane" where
  "delayMicroseconds us s = called (DelayMicroseconds us) s"

definition tone :: "pin \<Rightarrow> nat \<Rightarrow> nat \<Rightarrow> cane \<Rightarrow> cane" where
  "tone p frequency duration s =
     called (Tone p frequency duration) (s\<lparr>tone_playing := Some (p, frequency, duration)\<rparr>)"

definition noTone :: "pin \<Rightarrow> cane \<Rightarrow> cane" where
  "noTone p s = called (NoTone p) (s\<lparr>tone_playing := None\<rparr>)"

definition Serial_print :: "item \<Rightarrow> cane \<Rightarrow> cane" where
  "Serial_print x s = called (SerialPrint x) (s\<lparr>serial := serial s @ [x]\<rparr>)"

definition Serial_println :: "item \<Rightarrow> cane \<Rightarrow> cane" where
  "Serial_println x s = called (SerialPrintln x) (s\<lparr>serial := serial s @ [x, EOL]\<rparr>)"

definition display_clearDisplay :: "cane \<Rightarrow> cane" where
  "display_clearDisplay s = called DisplayClearDisplay (s\<lparr>oled_buffer := []\<rparr>)"

definition display_setTextSize :: "nat \<Rightarrow> cane \<Rightarrow> cane" where
  "display_setTextSize n s = called (DisplaySetTextSize n) s"

definition display_setTextColor :: "cane \<Rightarrow> cane" where
  "display_setTextColor s = called DisplaySetTextColor s"

definition display_setCursor :: "nat \<Rightarrow> nat \<Rightarrow> cane \<Rightarrow> cane" where
  "display_setCursor x y s = called (DisplaySetCursor x y) s"

definition display_print :: "item \<Rightarrow> cane \<Rightarrow> cane" where
  "display_print x s =
     called (DisplayPrint x) (s\<lparr>oled_buffer := oled_buffer s @ [DisplayPrint x]\<rparr>)"

definition display_println :: "item \<Rightarrow> cane \<Rightarrow> cane" where
  "display_println x s =
     called (DisplayPrintln x) (s\<lparr>oled_buffer := oled_buffer s @ [DisplayPrintln x]\<rparr>)"

definition display_drawLine :: "nat \<Rightarrow> nat \<Rightarrow> nat \<Rightarrow> nat \<Rightarrow> cane \<Rightarrow> cane" where
  "display_drawLine x0 y0 x1 y1 s =
     called (DisplayDrawLine x0 y0 x1 y1)
       (s\<lparr>oled_buffer := oled_buffer s @ [DisplayDrawLine x0 y0 x1 y1]\<rparr>)"

definition display_display :: "cane \<Rightarrow> cane" where
  "display_display s = called DisplayDisplay (s\<lparr>oled_panel := oled_buffer s\<rparr>)"

text \<open>Statements one after the other; a statement under \<open>if\<close>.\<close>

definition run :: "(cane \<Rightarrow> cane) list \<Rightarrow> cane \<Rightarrow> cane" where
  "run stmts s = fold (\<lambda>stmt t. stmt t) stmts s"

definition if_then :: "bool \<Rightarrow> (cane \<Rightarrow> cane) \<Rightarrow> cane \<Rightarrow> cane" where
  "if_then b stmt s = (if b then stmt s else s)"

subsection \<open>What one iteration reads\<close>

text \<open>
  The values the board returns during one run of \<open>loop\<close>: the button pin, the clock
  at its two reads (lines 97 and 99), the two DHT readings, the echo pulse length
  \<open>pulseIn\<close> returns (0 when the 30000 microseconds pass with no pulse), the LDR
  sample and the three accelerometer axes.
\<close>

record readings =
  button :: level
  millis_at_check :: "32 word"
  millis_at_stamp :: "32 word"
  dht_temperature :: cfloat
  dht_humidity :: cfloat
  echo_pulse :: "32 word"
  ldr :: int
  accel_x :: "16 word"
  accel_y :: "16 word"
  accel_z :: "16 word"

subsection \<open>getDistance (lines 181 to 191)\<close>

text \<open>
  \<^verbatim>\<open>long duration = pulseIn(ECHO_PIN, HIGH, 30000);\<close> stores the unsigned result in
  a signed \<open>long\<close>. \<^verbatim>\<open>duration * 0.034 / 2\<close> is computed in \<open>double\<close>: the
  \<open>long\<close> and the literal are converted, the product and the quotient are rounded,
  and the result is converted to the \<open>float\<close> the function returns. The divisor 2 is
  the same number in every binary format.
\<close>

definition to_cm :: "platform \<Rightarrow> int \<Rightarrow> real" where
  "to_cm pf duration =
     float_round pf
       (double_round pf
          (double_round pf (double_round pf (of_int duration) * double_round pf (34 / 1000)) / 2))"

definition getDistance :: "platform \<Rightarrow> readings \<Rightarrow> cane \<Rightarrow> cfloat \<times> cane" where
  "getDistance pf r s =
     (let s1 = run [digitalWrite TRIG_PIN LOW,
                    delayMicroseconds 2,
                    digitalWrite TRIG_PIN HIGH,
                    delayMicroseconds 10,
                    digitalWrite TRIG_PIN LOW,
                    pulseIn ECHO_PIN HIGH 30000] s;
          duration = sint (echo_pulse r)
      in if duration = 0 then (of_c_int (- 1), s1)
         else (Finite (to_cm pf duration), s1))"

subsection \<open>loop (lines 89 to 178)\<close>

text \<open>The six reasons and their disjunction, as lines 113 to 119 compute them.\<close>

record alerts =
  manual :: bool
  obstacle :: bool
  temperature_out :: bool
  low_light :: bool
  humidity_out :: bool
  motion :: bool
  triggered :: bool

definition determine_alerts ::
  "bool \<Rightarrow> cfloat \<Rightarrow> cfloat \<Rightarrow> cfloat \<Rightarrow> int \<Rightarrow> int \<Rightarrow> alerts" where
  "determine_alerts pressed temperature humidity distance lightLevel accelSum =
     \<lparr>manual = pressed,
      obstacle = distanceAlert distance,
      temperature_out = tempAlert temperature,
      low_light = lightAlert lightLevel,
      humidity_out = humidityAlert humidity,
      motion = motionAlert accelSum,
      triggered = alertTriggered pressed (distanceAlert distance) (tempAlert temperature)
                    (lightAlert lightLevel) (humidityAlert humidity) (motionAlert accelSum)\<rparr>"

text \<open>
  Lines 122 to 173, the body of \<^verbatim>\<open>if (alertTriggered)\<close>, in the four blocks
  the source's comments name. The strings are the bytes of the source's literals: the
  source file is UTF-8, and the pictographs that open the six reason messages and the
  degree sign of line 160 are written here byte by byte.
\<close>

text \<open>U+1F518, U+26A0 followed by U+FE0F, and U+00B0, in UTF-8.\<close>

definition radio_button_utf8 :: string where
  "radio_button_utf8 = [CHR 0xF0, CHR 0x9F, CHR 0x94, CHR 0x98]"

definition warning_sign_utf8 :: string where
  "warning_sign_utf8 = [CHR 0xE2, CHR 0x9A, CHR 0xA0, CHR 0xEF, CHR 0xB8, CHR 0x8F]"

definition degree_sign_utf8 :: string where
  "degree_sign_utf8 = [CHR 0xC2, CHR 0xB0]"

text \<open>The message of line 153, printed when the manual reason fired.\<close>

definition manual_message :: string where
  "manual_message = radio_button_utf8 @ '' Manual Button Triggered''"

text \<open>Lines 123 and 124, "Activate buzzer + LED".\<close>

definition activate_alert :: "cane \<Rightarrow> cane" where
  "activate_alert =
     run [digitalWrite LED_RED HIGH,
          tone BUZZER_PIN 1500 300]"

text \<open>Lines 127 to 149, "OLED display alert".\<close>

definition oled_alert :: "cfloat \<Rightarrow> cfloat \<Rightarrow> cfloat \<Rightarrow> int \<Rightarrow> cane \<Rightarrow> cane" where
  "oled_alert temperature humidity distance lightLevel =
     run [display_clearDisplay,
          display_setTextSize 1,
          display_setTextColor,
          display_setCursor 0 0,
          display_println (Str ''SMART CANE ALERT''),
          display_drawLine 0 10 127 10,
          display_setCursor 0 15,
          display_print (Str ''Temp: ''),
          display_print (Flt temperature),
          display_println (Str '' C''),
          display_setCursor 0 25,
          display_print (Str ''Hum:  ''),
          display_print (Flt humidity),
          display_println (Str '' %''),
          display_setCursor 0 35,
          display_print (Str ''Dist: ''),
          display_print (Flt distance),
          display_println (Str '' cm''),
          display_setCursor 0 45,
          display_print (Str ''Light: ''),
          display_print (Num lightLevel),
          display_display]"

text \<open>Lines 152 to 165, "Serial output".\<close>

definition serial_report ::
  "alerts \<Rightarrow> cfloat \<Rightarrow> cfloat \<Rightarrow> cfloat \<Rightarrow> int \<Rightarrow> int \<Rightarrow> cane \<Rightarrow> cane" where
  "serial_report a temperature humidity distance lightLevel accelSum =
     run [Serial_println (Str ''===== SMART CANE ALERT =====''),
          if_then (manual a) (Serial_println (Str manual_message)),
          if_then (obstacle a) (Serial_println (Str (warning_sign_utf8 @ '' Obstacle detected nearby!''))),
          if_then (temperature_out a) (Serial_println (Str (warning_sign_utf8 @ '' Temperature out of range!''))),
          if_then (low_light a) (Serial_println (Str (warning_sign_utf8 @ '' Low light detected!''))),
          if_then (humidity_out a) (Serial_println (Str (warning_sign_utf8 @ '' Humidity uncomfortable!''))),
          if_then (motion a) (Serial_println (Str (warning_sign_utf8 @ '' Fall detected!''))),
          Serial_print (Str ''Temperature: ''),
          Serial_print (Flt temperature),
          Serial_println (Str ('' '' @ degree_sign_utf8 @ ''C'')),
          Serial_print (Str ''Humidity: ''),
          Serial_print (Flt humidity),
          Serial_println (Str '' %''),
          Serial_print (Str ''Distance: ''),
          Serial_print (Flt distance),
          Serial_println (Str '' cm''),
          Serial_print (Str ''Light Level: ''),
          Serial_println (Num lightLevel),
          Serial_print (Str ''Accel Sum: ''),
          Serial_println (Num accelSum),
          Serial_println (Str (''============================'' @ [CHR 0x0A]))]"

text \<open>Lines 170 to 173, "Turn off alerts after display".\<close>

definition turn_off_alerts :: "cane \<Rightarrow> cane" where
  "turn_off_alerts =
     run [noTone BUZZER_PIN,
          digitalWrite LED_RED LOW,
          display_clearDisplay,
          display_display]"

definition present ::
  "alerts \<Rightarrow> cfloat \<Rightarrow> cfloat \<Rightarrow> cfloat \<Rightarrow> int \<Rightarrow> int \<Rightarrow> cane \<Rightarrow> cane" where
  "present a temperature humidity distance lightLevel accelSum =
     run [activate_alert,
          oled_alert temperature humidity distance lightLevel,
          serial_report a temperature humidity distance lightLevel accelSum,
          delay 2000,
          turn_off_alerts]"

text \<open>
  Lines 99 to 177: the part of \<open>loop\<close> after the early return. It stamps
  \<open>lastCheck\<close>, reads the sensors, determines the alerts, presents them when
  triggered, and resets the button flag.
\<close>

definition evaluate :: "platform \<Rightarrow> readings \<Rightarrow> cane \<Rightarrow> cane" where
  "evaluate pf r s =
     (let s1 = (millis s)\<lparr>lastCheck := millis_at_stamp r\<rparr>;
          s2 = run [called DhtReadTemperature, called DhtReadHumidity] s1;
          (distance, s3) = getDistance pf r s2;
          s4 = run [analogRead LDR_PIN, called MpuGetAcceleration] s3;
          accelSum = totalAccel pf (accel_x r) (accel_y r) (accel_z r);
          a = determine_alerts (buttonPressed s4) (dht_temperature r) (dht_humidity r)
                distance (ldr r) accelSum;
          s5 = if_then (triggered a)
                 (present a (dht_temperature r) (dht_humidity r) distance (ldr r) accelSum) s4
      in s5\<lparr>buttonPressed := False\<rparr>)"

text \<open>Lines 91 to 98: the button, then the decision whether to check now.\<close>

definition poll_button :: "readings \<Rightarrow> cane \<Rightarrow> cane" where
  "poll_button r s =
     (let s1 = digitalRead BUTTON_PIN s
      in if button r = LOW then delay 100 (s1\<lparr>buttonPressed := True\<rparr>) else s1)"

definition checkNow :: "readings \<Rightarrow> cane \<Rightarrow> bool" where
  "checkNow r s = (millis_at_check r - lastCheck s > CHECK_INTERVAL)"

definition loop :: "platform \<Rightarrow> readings \<Rightarrow> cane \<Rightarrow> cane" where
  "loop pf r s =
     (let s1 = poll_button r s;
          s2 = millis s1
      in if \<not> checkNow r s2 \<and> \<not> buttonPressed s2 then s2
         else evaluate pf r s2)"

subsection \<open>setup (lines 41 to 87)\<close>

text \<open>
  What the board answers during \<open>setup\<close>: whether \<open>display.begin\<close> succeeds and
  whether the accelerometer answers the connection test.
\<close>

record startup =
  display_begin_ok :: bool
  mpu_connected :: bool

text \<open>
  \<^verbatim>\<open>while (true);\<close> has an empty body and no exit. As a recursive function it
  is its own recursive call; not returning is the value \<open>None\<close>.
\<close>

partial_function (option) while_true :: "cane \<Rightarrow> cane option" where
  "while_true s = while_true s"

text \<open>
  \<open>setup\<close> (here \<open>setup_ino\<close>) either returns, with the state it leaves, or never returns and the
  board stays in one state for good.
\<close>

datatype outcome = Returns cane | Hangs cane

text \<open>Lines 42 to 58, up to the call of \<open>display.begin\<close>.\<close>

definition begin_hardware :: "cane \<Rightarrow> cane" where
  "begin_hardware =
     run [called (SerialBegin 9600),
          called WireBegin,
          called DhtBegin,
          called MpuInitialize,
          pinMode TRIG_PIN OUTPUT,
          pinMode ECHO_PIN INPUT,
          pinMode BUZZER_PIN OUTPUT,
          pinMode LED_RED OUTPUT,
          pinMode BUTTON_PIN INPUT_PULLUP,
          pinMode LDR_PIN INPUT,
          called DisplayBegin]"

text \<open>Lines 64 to 86, the welcome_screen screen and the connection test.\<close>

definition welcome_screen :: "startup \<Rightarrow> cane \<Rightarrow> cane" where
  "welcome_screen b =
     run [display_clearDisplay,
          display_setTextSize 1,
          display_setTextColor,
          display_setCursor 15 10,
          display_println (Str ''SMART CANE v3.0''),
          display_setCursor 20 25,
          display_println (Str ''Initializing...''),
          display_display,
          delay 2500,
          display_clearDisplay,
          display_display,
          called MpuTestConnection,
          (if mpu_connected b
           then Serial_println (Str ''MPU6050 connected successfully!'')
           else Serial_println (Str ''MPU6050 connection failed!'')),
          Serial_println (Str ''Smart Cane Ready.''),
          Serial_println (Str ''Press button or wait for alert.''),
          Serial_println (Str ''----------------------------------'')]"

definition setup_ino :: "startup \<Rightarrow> cane \<Rightarrow> outcome" where
  "setup_ino b s =
     (let s1 = begin_hardware s
      in if \<not> display_begin_ok b
         then (let s2 = Serial_println (Str ''SSD1306 allocation failed!'') s1
               in case while_true s2 of
                    None \<Rightarrow> Hangs s2
                  | Some s3 \<Rightarrow> Returns (welcome_screen b s3))
         else Returns (welcome_screen b s1))"

subsection \<open>The sketch: setup once, then loop\<close>

text \<open>
  The Arduino core calls \<open>setup\<close> and then \<open>loop\<close> without end. \<open>sketch\<close> is
  the state after \<open>setup\<close> and one run of \<open>loop\<close> for each element of the list of
  readings; the loop is only entered when \<open>setup\<close> returns.
\<close>

fun loops :: "platform \<Rightarrow> readings list \<Rightarrow> cane \<Rightarrow> cane" where
  "loops pf [] s = s"
| "loops pf (r # rs) s = loops pf rs (loop pf r s)"

definition sketch :: "platform \<Rightarrow> startup \<Rightarrow> readings list \<Rightarrow> cane \<Rightarrow> outcome" where
  "sketch pf b rs s =
     (case setup_ino b s of
        Hangs h \<Rightarrow> Hangs h
      | Returns s1 \<Rightarrow> Returns (loops pf rs s1))"

text \<open>The board at power-on: both globals as initialised in lines 37 and 39.\<close>

definition power_on :: cane where
  "power_on = \<lparr>lastCheck = 0, buttonPressed = False, outputs = (\<lambda>p. LOW),
     tone_playing = None, oled_buffer = [], oled_panel = [], serial = [], trace = []\<rparr>"

subsection \<open>What an iteration does, read off the code\<close>

text \<open>
  The manual flag as line 98 and line 119 see it: \<open>buttonPressed\<close> after the button
  was polled. The iteration goes on to line 99 when the negation of the early-return
  condition holds.
\<close>

definition pending :: "readings \<Rightarrow> cane \<Rightarrow> bool" where
  "pending r s = buttonPressed (millis (poll_button r s))"

definition reaches_evaluation :: "readings \<Rightarrow> cane \<Rightarrow> bool" where
  "reaches_evaluation r s =
     (\<not> (\<not> checkNow r (millis (poll_button r s)) \<and> \<not> buttonPressed (millis (poll_button r s))))"

text \<open>The value \<open>getDistance\<close> returns on these readings; the state plays no part in it.\<close>

definition measured :: "platform \<Rightarrow> readings \<Rightarrow> cfloat" where
  "measured pf r = fst (getDistance pf r power_on)"

text \<open>The alerts lines 113 to 119 compute in an iteration that gets there.\<close>

definition loop_alerts :: "platform \<Rightarrow> readings \<Rightarrow> cane \<Rightarrow> alerts" where
  "loop_alerts pf r s =
     determine_alerts (pending r s) (dht_temperature r) (dht_humidity r) (measured pf r)
       (ldr r) (totalAccel pf (accel_x r) (accel_y r) (accel_z r))"

text \<open>The calls one run of \<open>loop\<close> adds to the trace.\<close>

definition calls_of_loop :: "platform \<Rightarrow> readings \<Rightarrow> cane \<Rightarrow> call list" where
  "calls_of_loop pf r s = drop (length (trace s)) (trace (loop pf r s))"

text \<open>
  Calls that read a sensor, and calls that present an alert: the LED pin, the tone, the
  display and the serial port.
\<close>

fun sensor_read :: "call \<Rightarrow> bool" where
  "sensor_read DhtReadTemperature = True"
| "sensor_read DhtReadHumidity = True"
| "sensor_read (PulseIn p l t) = True"
| "sensor_read (AnalogRead p) = True"
| "sensor_read MpuGetAcceleration = True"
| "sensor_read _ = False"

fun presentation_call :: "call \<Rightarrow> bool" where
  "presentation_call (DigitalWrite p l) = (p = LED_RED)"
| "presentation_call (Tone p f d) = True"
| "presentation_call (NoTone p) = True"
| "presentation_call (SerialPrint x) = True"
| "presentation_call (SerialPrintln x) = True"
| "presentation_call DisplayClearDisplay = True"
| "presentation_call (DisplaySetTextSize n) = True"
| "presentation_call DisplaySetTextColor = True"
| "presentation_call (DisplaySetCursor x y) = True"
| "presentation_call (DisplayPrint x) = True"
| "presentation_call (DisplayPrintln x) = True"
| "presentation_call (DisplayDrawLine x0 y0 x1 y1) = True"
| "presentation_call DisplayDisplay = True"
| "presentation_call _ = False"

definition presents :: "platform \<Rightarrow> readings \<Rightarrow> cane \<Rightarrow> bool" where
  "presents pf r s = list_ex presentation_call (calls_of_loop pf r s)"

text \<open>
  The calls of lines 99 to 109, from the stamp of \<open>lastCheck\<close> to the accelerometer
  read, in order.
\<close>

definition sensor_calls :: "call list" where
  "sensor_calls = [Millis, DhtReadTemperature, DhtReadHumidity, DigitalWrite TRIG_PIN LOW,
     DelayMicroseconds 2, DigitalWrite TRIG_PIN HIGH, DelayMicroseconds 10,
     DigitalWrite TRIG_PIN LOW, PulseIn ECHO_PIN HIGH 30000, AnalogRead LDR_PIN,
     MpuGetAcceleration]"

subsection \<open>Concrete readings\<close>

text \<open>
  Iterations to evaluate the sketch on. The clock reads 3000 ms, so from power-on
  (\<open>lastCheck = 0\<close>) the check interval has passed, except in \<open>idle_readings\<close>.
  An echo of 882 microseconds is 14.994 cm, one of 5882 is 99.994 cm (in the 32-bit
  format: 15722349 / 2^20 and 6553207 / 2^16).
\<close>

definition obstacle_readings :: readings where
  "obstacle_readings = \<lparr>button = HIGH, millis_at_check = 3000, millis_at_stamp = 3000,
     dht_temperature = Finite 22, dht_humidity = Finite 45, echo_pulse = 882, ldr = 600,
     accel_x = 100, accel_y = 100, accel_z = 100\<rparr>"

definition timeout_readings :: readings where
  "timeout_readings = \<lparr>button = HIGH, millis_at_check = 3000, millis_at_stamp = 3000,
     dht_temperature = NaN, dht_humidity = Finite 50, echo_pulse = 0, ldr = 700,
     accel_x = 0, accel_y = 0, accel_z = 0\<rparr>"

definition motion_readings :: readings where
  "motion_readings = \<lparr>button = HIGH, millis_at_check = 3000, millis_at_stamp = 3000,
     dht_temperature = Finite 22, dht_humidity = Finite 45, echo_pulse = 5882, ldr = 700,
     accel_x = 6000, accel_y = 6000, accel_z = 6000\<rparr>"

definition manual_readings :: readings where
  "manual_readings = \<lparr>button = LOW, millis_at_check = 3100, millis_at_stamp = 3100,
     dht_temperature = Finite 22, dht_humidity = Finite 45, echo_pulse = 5882, ldr = 700,
     accel_x = 100, accel_y = 100, accel_z = 100\<rparr>"

text \<open>
  The iteration after \<open>manual_readings\<close> when the press that set the flag is still
  held: the 100 ms debounce and the 2000 ms alert have passed and the pin still reads LOW.
\<close>

definition held_readings :: readings where
  "held_readings = \<lparr>button = LOW, millis_at_check = 5300, millis_at_stamp = 5300,
     dht_temperature = Finite 22, dht_humidity = Finite 45, echo_pulse = 5882, ldr = 700,
     accel_x = 100, accel_y = 100, accel_z = 100\<rparr>"

definition idle_readings :: readings where
  "idle_readings = \<lparr>button = HIGH, millis_at_check = 100, millis_at_stamp = 100,
     dht_temperature = Finite 22, dht_humidity = Finite 45, echo_pulse = 5882, ldr = 700,
     accel_x = 100, accel_y = 100, accel_z = 100\<rparr>"

subsection \<open>Further notions the statements use\<close>

text \<open>
  What is asked of a rounding: it is monotone, and it leaves 1, 1/32 and 1/64 as they
  are. Every binary floating-point format represents these three numbers, and rounding
  to nearest, as any directed rounding, is monotone.
\<close>

definition rounding :: "(real \<Rightarrow> real) \<Rightarrow> bool" where
  "rounding rd = ((\<forall>x y. x \<le> y \<longrightarrow> rd x \<le> rd y) \<and> rd 1 = 1 \<and> rd (1 / 32) = 1 / 32
     \<and> rd (1 / 64) = 1 / 64)"

text \<open>The calls of lines 42 to 58, in order.\<close>

definition hardware_calls :: "call list" where
  "hardware_calls = [SerialBegin 9600, WireBegin, DhtBegin, MpuInitialize,
     PinMode TRIG_PIN OUTPUT, PinMode ECHO_PIN INPUT, PinMode BUZZER_PIN OUTPUT,
     PinMode LED_RED OUTPUT, PinMode BUTTON_PIN INPUT_PULLUP, PinMode LDR_PIN INPUT,
     DisplayBegin]"

section \<open>Rounding to a binary format\<close>

lemma rhe_bounds: "of_int \<lfloor>y\<rfloor> \<le> (of_int (round_half_even y) :: real)"
  "round_half_even y \<le> \<lfloor>y\<rfloor> + 1"
  by (simp_all add: round_half_even_def Let_def)

lemma rhe_int: "round_half_even (of_int n) = n"
  by (simp add: round_half_even_def Let_def)

lemma rhe_mono: "y \<le> z \<Longrightarrow> round_half_even y \<le> round_half_even z"
proof (cases "\<lfloor>y\<rfloor> = \<lfloor>z\<rfloor>")
  case True
  assume "y \<le> z"
  with True show ?thesis
    by (auto simp: round_half_even_def Let_def)
next
  case False
  assume "y \<le> z"
  then have "\<lfloor>y\<rfloor> \<le> \<lfloor>z\<rfloor>" by (rule floor_mono)
  with False have "\<lfloor>y\<rfloor> + 1 \<le> \<lfloor>z\<rfloor>" by simp
  moreover have "round_half_even y \<le> \<lfloor>y\<rfloor> + 1" by (rule rhe_bounds)
  moreover have "\<lfloor>z\<rfloor> \<le> round_half_even z"
    by (simp add: round_half_even_def Let_def)
  ultimately show ?thesis by linarith
qed

lemma exponent_iff:
  "0 < x \<Longrightarrow>
   (binary_exponent x = k) = (2 powr of_int k \<le> x \<and> x < 2 powr of_int (k + 1))"
  by (simp add: binary_exponent_def floor_log_eq_powr_iff)

lemma exponent_mono:
  assumes "0 < x" and "x \<le> y"
  shows "binary_exponent x \<le> binary_exponent y"
proof -
  have "log 2 x \<le> log 2 y" using assms by simp
  then show ?thesis
    using assms by (simp add: binary_exponent_def floor_mono)
qed

lemma scaled_bounds:
  assumes x: "0 < x" and p: "0 < p"
  defines "u \<equiv> 2 powr of_int (binary_exponent x - int p + 1)"
  shows "0 < u" and "2 ^ (p - 1) * u = 2 powr of_int (binary_exponent x)"
    and "2 ^ p * u = 2 powr of_int (binary_exponent x + 1)"
    and "2 ^ (p - 1) \<le> round_half_even (x / u)" and "round_half_even (x / u) \<le> 2 ^ p"
proof -
  let ?e = "binary_exponent x"
  show u: "0 < u" by (simp add: u_def)
  have "(2::real) ^ (p - 1) = 2 powr of_int (int p - 1)"
    using p by (simp add: powr_realpow [symmetric] of_nat_diff)
  then show lo: "2 ^ (p - 1) * u = 2 powr of_int ?e"
    by (simp add: u_def powr_add [symmetric])
  have "(2::real) ^ p = 2 powr of_int (int p)"
    by (simp add: powr_realpow [symmetric])
  then show hi: "2 ^ p * u = 2 powr of_int (?e + 1)"
    by (simp add: u_def powr_add [symmetric])
  have b: "2 powr of_int ?e \<le> x" "x < 2 powr of_int (?e + 1)"
    using exponent_iff [OF x, of ?e] by simp_all
  have "2 ^ (p - 1) \<le> x / u"
    using b(1) u lo by (simp add: le_divide_eq)
  then have "round_half_even (of_int (2 ^ (p - 1))) \<le> round_half_even (x / u)"
    by (intro rhe_mono) simp
  then show "2 ^ (p - 1) \<le> round_half_even (x / u)"
    by (simp only: rhe_int)
  have "x / u \<le> 2 ^ p"
    using b(2) u hi by (simp add: divide_le_eq)
  then have "round_half_even (x / u) \<le> round_half_even (of_int (2 ^ p))"
    by (intro rhe_mono) simp
  then show "round_half_even (x / u) \<le> 2 ^ p"
    by (simp only: rhe_int)
qed

lemma binary_round_pos:
  assumes x: "0 < x"
  shows "binary_round p x =
     of_int (round_half_even (x / 2 powr of_int (binary_exponent x - int p + 1)))
       * 2 powr of_int (binary_exponent x - int p + 1)"
  using x by (simp add: binary_round_def Let_def)

lemma binary_round_bounds:
  assumes x: "0 < x" and p: "0 < p"
  shows "2 powr of_int (binary_exponent x) \<le> binary_round p x"
    and "binary_round p x \<le> 2 powr of_int (binary_exponent x + 1)"
proof -
  let ?u = "(2::real) powr of_int (binary_exponent x - int p + 1)"
  let ?n = "round_half_even (x / ?u)"
  note s = scaled_bounds [OF x p]
  have "(of_int (2 ^ (p - 1)) :: real) \<le> of_int ?n"
    using s(4) by (simp only: of_int_le_iff)
  then have "2 ^ (p - 1) * ?u \<le> of_int ?n * ?u"
    by (intro mult_right_mono) simp_all
  then show "2 powr of_int (binary_exponent x) \<le> binary_round p x"
    by (simp only: s(2) binary_round_pos [OF x])
  have "(of_int ?n :: real) \<le> of_int (2 ^ p)"
    using s(5) by (simp only: of_int_le_iff)
  then have "of_int ?n * ?u \<le> 2 ^ p * ?u"
    by (intro mult_right_mono) simp_all
  then show "binary_round p x \<le> 2 powr of_int (binary_exponent x + 1)"
    by (simp only: s(3) binary_round_pos [OF x])
qed

lemma binary_round_minus: "binary_round p (- x) = - binary_round p x"
  by (simp add: binary_round_def binary_exponent_def Let_def)

lemma binary_round_pos_mono:
  assumes x: "0 < x" and xy: "x \<le> y" and p: "0 < p"
  shows "binary_round p x \<le> binary_round p y"
proof -
  have y: "0 < y" using x xy by simp
  have e: "binary_exponent x \<le> binary_exponent y"
    using x xy by (rule exponent_mono)
  show ?thesis
  proof (cases "binary_exponent x = binary_exponent y")
    case True
    let ?u = "(2::real) powr of_int (binary_exponent y - int p + 1)"
    have "x / ?u \<le> y / ?u"
      using xy by (intro divide_right_mono) simp_all
    then have "round_half_even (x / ?u) \<le> round_half_even (y / ?u)"
      by (rule rhe_mono)
    then have "of_int (round_half_even (x / ?u)) * ?u \<le> of_int (round_half_even (y / ?u)) * ?u"
      by (intro mult_right_mono) simp_all
    then show ?thesis
      by (simp only: binary_round_pos [OF x] binary_round_pos [OF y] True)
  next
    case False
    with e have "binary_exponent x + 1 \<le> binary_exponent y" by simp
    then have "(2::real) powr of_int (binary_exponent x + 1) \<le> 2 powr of_int (binary_exponent y)"
      by (intro powr_mono) simp_all
    with binary_round_bounds(2) [OF x p] binary_round_bounds(1) [OF y p]
    show ?thesis by linarith
  qed
qed

lemma binary_round_mono:
  assumes p: "0 < p" and xy: "x \<le> y"
  shows "binary_round p x \<le> binary_round p y"
proof -
  have pos: "0 < binary_round p z" if "0 < z" for z
  proof -
    have "0 < (2::real) powr of_int (binary_exponent z)" by simp
    with binary_round_bounds(1) [OF that p] show ?thesis by linarith
  qed
  have neg: "binary_round p z < 0" if "z < 0" for z
    using pos [of "- z"] that by (simp add: binary_round_minus)
  consider "0 < x" | "x \<le> 0" "0 \<le> y" | "y < 0" using xy by linarith
  then show ?thesis
  proof cases
    case 1
    then show ?thesis using xy p by (intro binary_round_pos_mono)
  next
    case 2
    have "binary_round p x \<le> 0"
      using 2(1) neg [of x] by (cases "x = 0") (simp_all add: binary_round_def)
    moreover have "0 \<le> binary_round p y"
      using 2(2) pos [of y] by (cases "y = 0") (simp_all add: binary_round_def)
    ultimately show ?thesis by linarith
  next
    case 3
    then have "binary_round p (- y) \<le> binary_round p (- x)"
      using xy p by (intro binary_round_pos_mono) simp_all
    then show ?thesis by (simp add: binary_round_minus)
  qed
qed

lemma binary_round_power2:
  assumes p: "0 < p"
  shows "binary_round p (2 powr of_int k) = 2 powr of_int k"
proof -
  let ?x = "(2::real) powr of_int k"
  have x: "0 < ?x" by simp
  have e: "binary_exponent ?x = k"
    by (simp add: exponent_iff [OF x])
  let ?u = "(2::real) powr of_int (k - int p + 1)"
  have "(2::real) ^ (p - 1) = 2 powr of_int (int p - 1)"
    using p by (simp add: powr_realpow [symmetric] of_nat_diff)
  then have q: "?x / ?u = of_int (2 ^ (p - 1))"
    by (simp add: powr_diff [symmetric])
  have "binary_round p ?x = of_int (round_half_even (?x / ?u)) * ?u"
    by (simp only: binary_round_pos [OF x] e)
  also have "\<dots> = of_int (2 ^ (p - 1)) * ?u"
    by (simp only: q rhe_int)
  also have "\<dots> = ?x / ?u * ?u"
    by (simp only: q)
  also have "\<dots> = ?x" by simp
  finally show ?thesis .
qed


lemma binary_round_eval:
  assumes "2 powr of_int k \<le> x" and "x < 2 powr of_int (k + 1)"
  shows "binary_round p x =
     of_int (round_half_even (x / 2 powr of_int (k - int p + 1))) * 2 powr of_int (k - int p + 1)"
proof -
  have "0 < (2::real) powr of_int k" by simp
  with assms(1) have x: "0 < x" by linarith
  have "binary_exponent x = k"
    using assms by (simp add: exponent_iff [OF x])
  then show ?thesis by (simp only: binary_round_pos [OF x])
qed

lemma binary_round_keeps:
  assumes "0 < p"
  shows "binary_round p 1 = 1" "binary_round p (1 / 32) = 1 / 32"
    "binary_round p (1 / 64) = 1 / 64"
  using binary_round_power2 [OF assms, of 0] binary_round_power2 [OF assms, of "- 5"]
    binary_round_power2 [OF assms, of "- 6"]
  by (simp_all add: powr_minus_divide)

lemma rounding_binary_round: "0 < p \<Longrightarrow> rounding (binary_round p)"
  by (simp add: rounding_def binary_round_mono binary_round_keeps)

text \<open>Both formats of both boards are roundings in that sense.\<close>

lemma boards_rounding:
  "rounding (double_round avr)" "rounding (float_round avr)"
  "rounding (double_round arm32)" "rounding (float_round arm32)"
  by (simp_all add: avr_def arm32_def rounding_binary_round)

text \<open>The 32-bit format on the numbers the concrete readings lead to.\<close>

lemma binary32_values:
  "binary_round 24 (34 / 1000) = 9126806 / 2 ^ 28"
  "binary_round 24 882 = 882"
  "binary_round 24 5882 = 5882"
  "binary_round 24 (882 * (9126806 / 2 ^ 28)) = 15722349 / 2 ^ 19"
  "binary_round 24 (5882 * (9126806 / 2 ^ 28)) = 6553207 / 2 ^ 15"
  "binary_round 24 (15722349 / 2 ^ 19 / 2) = 15722349 / 2 ^ 20"
  "binary_round 24 (6553207 / 2 ^ 15 / 2) = 6553207 / 2 ^ 16"
  "binary_round 24 (15722349 / 2 ^ 20) = 15722349 / 2 ^ 20"
  "binary_round 24 (6553207 / 2 ^ 16) = 6553207 / 2 ^ 16"
  using binary_round_eval [of "- 5" "34 / 1000" 24]
    binary_round_eval [of 9 882 24]
    binary_round_eval [of 12 5882 24]
    binary_round_eval [of 4 "882 * (9126806 / 2 ^ 28)" 24]
    binary_round_eval [of 7 "5882 * (9126806 / 2 ^ 28)" 24]
    binary_round_eval [of 3 "15722349 / 2 ^ 19 / 2" 24]
    binary_round_eval [of 6 "6553207 / 2 ^ 15 / 2" 24]
    binary_round_eval [of 3 "15722349 / 2 ^ 20" 24]
    binary_round_eval [of 6 "6553207 / 2 ^ 16" 24]
  by (simp_all add: powr_minus_divide round_half_even_def Let_def)

lemma to_cm_avr:
  "to_cm avr 882 = 15722349 / 2 ^ 20"
  "to_cm avr 5882 = 6553207 / 2 ^ 16"
  by (simp_all only: to_cm_def avr_def platform.simps of_int_numeral binary32_values)

section \<open>The blocks of the sketch as state updates\<close>

lemmas prim_defs = called_def pinMode_def digitalRead_def digitalWrite_def analogRead_def
  pulseIn_def millis_def delay_def delayMicroseconds_def tone_def noTone_def Serial_print_def
  Serial_println_def display_clearDisplay_def display_setTextSize_def display_setTextColor_def
  display_setCursor_def display_print_def display_println_def display_drawLine_def
  display_display_def run_def

lemma if_then_println:
  "if_then b (Serial_println x) s =
     s\<lparr>serial := serial s @ (if b then [x, EOL] else []),
       trace := trace s @ (if b then [SerialPrintln x] else [])\<rparr>"
  by (simp add: if_then_def Serial_println_def called_def)

lemma activate_alert_eq:
  "activate_alert s =
     s\<lparr>outputs := (outputs s)(LED_RED := HIGH),
       tone_playing := Some (BUZZER_PIN, 1500, 300),
       trace := trace s @ [DigitalWrite LED_RED HIGH, Tone BUZZER_PIN 1500 300]\<rparr>"
  by (simp add: activate_alert_def prim_defs)

lemma oled_alert_eq:
  "\<exists>buf cs. (\<forall>s. oled_alert t h d l s =
      s\<lparr>oled_buffer := buf, oled_panel := buf, trace := trace s @ cs\<rparr>)
    \<and> list_all presentation_call cs \<and> \<not> list_ex sensor_read cs
    \<and> SerialPrintln (Str manual_message) \<notin> set cs"
  apply (simp add: oled_alert_def prim_defs)
  apply (rule exI, rule exI, rule conjI, rule allI)
   apply (rule cane.equality; simp)
  apply simp
  done

lemma serial_report_eq:
  "\<exists>out cs. (\<forall>s. serial_report a t h d l acc s =
      s\<lparr>serial := serial s @ out, trace := trace s @ cs\<rparr>)
    \<and> list_all presentation_call cs \<and> \<not> list_ex sensor_read cs
    \<and> (SerialPrintln (Str manual_message) \<in> set cs) = manual a"
  apply (simp add: serial_report_def run_def if_then_println split del: if_split)
  apply (simp add: prim_defs split del: if_split)
  apply (rule exI, rule exI, rule conjI, rule allI)
   apply (rule cane.equality; simp split del: if_split)
  apply (simp add: manual_message_def radio_button_utf8_def warning_sign_utf8_def)
  done

lemma turn_off_alerts_eq:
  "turn_off_alerts s =
     s\<lparr>outputs := (outputs s)(LED_RED := LOW), tone_playing := None,
       oled_buffer := [], oled_panel := [],
       trace := trace s @ [NoTone BUZZER_PIN, DigitalWrite LED_RED LOW,
                  DisplayClearDisplay, DisplayDisplay]\<rparr>"
  by (simp add: turn_off_alerts_def prim_defs)

lemma present_eq:
  "\<exists>out mid. (\<forall>s. present a t h d l acc s =
     s\<lparr>outputs := (outputs s)(LED_RED := LOW), tone_playing := None,
       oled_buffer := [], oled_panel := [],
       serial := serial s @ out,
       trace := trace s @ [DigitalWrite LED_RED HIGH, Tone BUZZER_PIN 1500 300] @ mid @
         [Delay 2000, NoTone BUZZER_PIN, DigitalWrite LED_RED LOW,
          DisplayClearDisplay, DisplayDisplay]\<rparr>)
    \<and> list_all presentation_call mid \<and> \<not> list_ex sensor_read mid
    \<and> (SerialPrintln (Str manual_message) \<in> set mid) = manual a"
proof -
  obtain buf cs1 where o: "\<And>s. oled_alert t h d l s =
      s\<lparr>oled_buffer := buf, oled_panel := buf, trace := trace s @ cs1\<rparr>"
    and o': "list_all presentation_call cs1" "\<not> list_ex sensor_read cs1"
      "SerialPrintln (Str manual_message) \<notin> set cs1"
    using oled_alert_eq [of t h d l] by blast
  obtain out cs2 where r: "\<And>s. serial_report a t h d l acc s =
      s\<lparr>serial := serial s @ out, trace := trace s @ cs2\<rparr>"
    and r': "list_all presentation_call cs2" "\<not> list_ex sensor_read cs2"
      "(SerialPrintln (Str manual_message) \<in> set cs2) = manual a"
    using serial_report_eq [of a t h d l acc] by blast
  have "\<forall>s. present a t h d l acc s =
     s\<lparr>outputs := (outputs s)(LED_RED := LOW), tone_playing := None,
       oled_buffer := [], oled_panel := [],
       serial := serial s @ out,
       trace := trace s @ [DigitalWrite LED_RED HIGH, Tone BUZZER_PIN 1500 300] @ (cs1 @ cs2) @
         [Delay 2000, NoTone BUZZER_PIN, DigitalWrite LED_RED LOW,
          DisplayClearDisplay, DisplayDisplay]\<rparr>"
    by (simp add: present_def run_def activate_alert_eq o r turn_off_alerts_eq delay_def called_def)
  moreover have "list_all presentation_call (cs1 @ cs2)" "\<not> list_ex sensor_read (cs1 @ cs2)"
    "(SerialPrintln (Str manual_message) \<in> set (cs1 @ cs2)) = manual a"
    using o' r' by (auto simp: list_ex_iff)
  ultimately show ?thesis by blast
qed

lemma poll_button_eq:
  "poll_button r s =
     s\<lparr>buttonPressed := (buttonPressed s \<or> button r = LOW),
       trace := trace s @ DigitalRead BUTTON_PIN # (if button r = LOW then [Delay 100] else [])\<rparr>"
  by (simp add: poll_button_def digitalRead_def delay_def called_def)

lemma getDistance_state:
  "snd (getDistance pf r s) =
     s\<lparr>outputs := (outputs s)(TRIG_PIN := LOW),
       trace := trace s @ [DigitalWrite TRIG_PIN LOW, DelayMicroseconds 2,
         DigitalWrite TRIG_PIN HIGH, DelayMicroseconds 10, DigitalWrite TRIG_PIN LOW,
         PulseIn ECHO_PIN HIGH 30000]\<rparr>"
  by (simp add: getDistance_def prim_defs Let_def)

lemma getDistance_value: "fst (getDistance pf r s) = measured pf r"
  by (simp add: getDistance_def measured_def Let_def)

lemma evaluate_eq:
  "evaluate pf r s =
     (let a = determine_alerts (buttonPressed s) (dht_temperature r) (dht_humidity r)
                (measured pf r) (ldr r) (totalAccel pf (accel_x r) (accel_y r) (accel_z r));
          s4 = s\<lparr>lastCheck := millis_at_stamp r, outputs := (outputs s)(TRIG_PIN := LOW),
                 trace := trace s @ sensor_calls\<rparr>
      in (if triggered a
          then present a (dht_temperature r) (dht_humidity r) (measured pf r) (ldr r)
                 (totalAccel pf (accel_x r) (accel_y r) (accel_z r)) s4
          else s4)\<lparr>buttonPressed := False\<rparr>)"
  by (simp add: evaluate_def Let_def case_prod_beta getDistance_state getDistance_value
      if_then_def run_def millis_def analogRead_def called_def sensor_calls_def)

lemma loop_eq:
  "loop pf r s =
     (if reaches_evaluation r s then evaluate pf r (millis (poll_button r s))
      else millis (poll_button r s))"
  by (simp add: loop_def reaches_evaluation_def Let_def)

lemma pending_iff: "pending r s = (buttonPressed s \<or> button r = LOW)"
  by (simp add: pending_def poll_button_eq millis_def called_def)

lemma reaches_evaluation_iff:
  "reaches_evaluation r s =
     (millis_at_check r - lastCheck s > 500 \<or> buttonPressed s \<or> button r = LOW)"
  by (simp add: reaches_evaluation_def poll_button_eq millis_def called_def checkNow_def
      CHECK_INTERVAL_def)

lemma loop_idle:
  assumes "\<not> reaches_evaluation r s"
  shows "loop pf r s = s\<lparr>trace := trace s @ [DigitalRead BUTTON_PIN, Millis]\<rparr>"
  using assms
  by (simp add: loop_eq reaches_evaluation_iff poll_button_eq millis_def called_def)

lemma loop_quiet:
  assumes "reaches_evaluation r s" and "\<not> triggered (loop_alerts pf r s)"
  shows "loop pf r s =
     s\<lparr>lastCheck := millis_at_stamp r, buttonPressed := False,
       outputs := (outputs s)(TRIG_PIN := LOW),
       trace := trace s @ DigitalRead BUTTON_PIN # (if button r = LOW then [Delay 100] else [])
                  @ Millis # sensor_calls\<rparr>"
  using assms
  by (simp add: loop_eq evaluate_eq loop_alerts_def pending_def Let_def)
     (simp add: poll_button_eq millis_def called_def)

lemma loop_alert:
  assumes "reaches_evaluation r s" and "triggered (loop_alerts pf r s)"
  shows "\<exists>out mid. loop pf r s =
     s\<lparr>lastCheck := millis_at_stamp r, buttonPressed := False,
       outputs := (outputs s)(TRIG_PIN := LOW, LED_RED := LOW),
       tone_playing := None, oled_buffer := [], oled_panel := [],
       serial := serial s @ out,
       trace := trace s @ DigitalRead BUTTON_PIN # (if button r = LOW then [Delay 100] else [])
                  @ Millis # sensor_calls
                  @ [DigitalWrite LED_RED HIGH, Tone BUZZER_PIN 1500 300] @ mid @
                  [Delay 2000, NoTone BUZZER_PIN, DigitalWrite LED_RED LOW,
                   DisplayClearDisplay, DisplayDisplay]\<rparr>
     \<and> list_all presentation_call mid \<and> \<not> list_ex sensor_read mid
     \<and> (SerialPrintln (Str manual_message) \<in> set mid) = pending r s"
proof -
  let ?a = "loop_alerts pf r s"
  obtain out mid where p: "\<And>t. present ?a (dht_temperature r) (dht_humidity r)
        (measured pf r) (ldr r) (totalAccel pf (accel_x r) (accel_y r) (accel_z r)) t =
     t\<lparr>outputs := (outputs t)(LED_RED := LOW), tone_playing := None,
       oled_buffer := [], oled_panel := [],
       serial := serial t @ out,
       trace := trace t @ [DigitalWrite LED_RED HIGH, Tone BUZZER_PIN 1500 300] @ mid @
         [Delay 2000, NoTone BUZZER_PIN, DigitalWrite LED_RED LOW,
          DisplayClearDisplay, DisplayDisplay]\<rparr>"
    and p': "list_all presentation_call mid" "\<not> list_ex sensor_read mid"
      "(SerialPrintln (Str manual_message) \<in> set mid) = manual ?a"
    using present_eq [of ?a] by blast
  have a: "determine_alerts (buttonPressed (millis (poll_button r s))) (dht_temperature r)
      (dht_humidity r) (measured pf r) (ldr r)
      (totalAccel pf (accel_x r) (accel_y r) (accel_z r)) = ?a"
    by (simp add: loop_alerts_def pending_def)
  have m: "manual ?a = pending r s"
    by (simp add: loop_alerts_def determine_alerts_def)
  have "loop pf r s =
     s\<lparr>lastCheck := millis_at_stamp r, buttonPressed := False,
       outputs := (outputs s)(TRIG_PIN := LOW, LED_RED := LOW),
       tone_playing := None, oled_buffer := [], oled_panel := [],
       serial := serial s @ out,
       trace := trace s @ DigitalRead BUTTON_PIN # (if button r = LOW then [Delay 100] else [])
                  @ Millis # sensor_calls
                  @ [DigitalWrite LED_RED HIGH, Tone BUZZER_PIN 1500 300] @ mid @
                  [Delay 2000, NoTone BUZZER_PIN, DigitalWrite LED_RED LOW,
                   DisplayClearDisplay, DisplayDisplay]\<rparr>"
    using assms
    by (simp add: loop_eq evaluate_eq a Let_def p)
       (simp add: poll_button_eq millis_def called_def)
  with p' m show ?thesis by blast
qed

section \<open>The alert conditions\<close>

lemma distanceAlert_iff: "distanceAlert d = (\<exists>x. d = Finite x \<and> 0 < x \<and> x < 30)"
  by (cases d) (auto simp: distanceAlert_def f_greater_def of_c_int_def DISTANCE_THRESHOLD_def)

lemma measured_timeout: "echo_pulse r = 0 \<Longrightarrow> measured pf r = Finite (- 1)"
  by (simp add: measured_def getDistance_def Let_def of_c_int_def)

text \<open>
  C2. The obstacle alert of line 113 holds exactly for a distance that is a number
  strictly between 0 and 30. No reading that is at most 0 sets it, the value -1 that
  \<open>getDistance\<close> returns on a timeout included, and an iteration whose echo timed out
  has no obstacle alert.
\<close>

theorem obstacle_alert_iff:
  "(distanceAlert d = (\<exists>x. d = Finite x \<and> 0 < x \<and> x < 30))
   \<and> (f_le d (Finite 0) \<longrightarrow> \<not> distanceAlert d)
   \<and> \<not> distanceAlert (Finite (- 1))
   \<and> obstacle (loop_alerts pf r s) = distanceAlert (measured pf r)
   \<and> (echo_pulse r = 0 \<longrightarrow> \<not> obstacle (loop_alerts pf r s))"
proof -
  have "f_le d (Finite 0) \<longrightarrow> \<not> distanceAlert d"
    by (cases d) (auto simp: distanceAlert_iff)
  moreover have "obstacle (loop_alerts pf r s) = distanceAlert (measured pf r)"
    by (simp add: loop_alerts_def determine_alerts_def)
  ultimately show ?thesis
    by (simp add: distanceAlert_iff measured_timeout)
qed

theorem obstacle_alert_iff_witness:
  "f_le (Finite (- 1)) (Finite 0) \<and> \<not> distanceAlert (Finite (- 1))
   \<and> echo_pulse timeout_readings = 0
   \<and> \<not> obstacle (loop_alerts avr timeout_readings power_on)"
  using obstacle_alert_iff [of "Finite (- 1)" avr timeout_readings power_on]
  by (auto simp add: timeout_readings_def)

text \<open>
  C3. A temperature that is not-a-number never sets the temperature alert of line 115:
  the \<open>isnan\<close> test comes first in the conjunction. Any other temperature sets it
  exactly when it is below 0 or above 45.
\<close>

theorem tempAlert_nan_guard:
  "(isnan t \<longrightarrow> \<not> tempAlert t)
   \<and> (\<not> isnan t \<longrightarrow> tempAlert t = (f_less t (Finite 0) \<or> f_greater t (Finite 45)))
   \<and> tempAlert (Finite x) = (x < 0 \<or> 45 < x)
   \<and> temperature_out (loop_alerts pf r s) = tempAlert (dht_temperature r)"
  by (simp add: tempAlert_def of_c_int_def TEMP_MIN_def TEMP_MAX_def f_greater_def
      loop_alerts_def determine_alerts_def)

theorem tempAlert_nan_guard_witness:
  "isnan NaN \<and> \<not> tempAlert NaN
   \<and> \<not> isnan (Finite 50) \<and> tempAlert (Finite 50)
   \<and> \<not> isnan (Finite 22) \<and> \<not> tempAlert (Finite 22)"
  using tempAlert_nan_guard [of NaN 0 avr timeout_readings power_on]
    tempAlert_nan_guard [of "Finite 50" 50 avr timeout_readings power_on]
    tempAlert_nan_guard [of "Finite 22" 22 avr timeout_readings power_on]
  by (simp add: f_greater_def)

subsection \<open>The acceleration sum\<close>

lemma c_int_fits:
  "- (2 ^ (int_bits pf - 1)) \<le> v \<Longrightarrow> v < 2 ^ (int_bits pf - 1) \<Longrightarrow> c_int pf v = v"
  unfolding c_int_def by (simp add: signed_take_bit_int_eq_self)

lemma arduino_abs_fits:
  assumes "\<bar>x\<bar> < 2 ^ (int_bits pf - 1)"
  shows "arduino_abs pf x = \<bar>x\<bar>"
proof (cases "x > 0")
  case True
  then show ?thesis by (simp add: arduino_abs_def)
next
  case False
  have "(0::int) < 2 ^ (int_bits pf - 1)" by simp
  with False assms have "c_int pf (- x) = - x"
    by (intro c_int_fits) linarith+
  with False show ?thesis by (simp add: arduino_abs_def)
qed

text \<open>
  Where the sum of the three absolute values fits \<open>int\<close>, the sketch computes it
  exactly.
\<close>

lemma totalAccel_exact:
  assumes "\<bar>sint ax\<bar> + \<bar>sint ay\<bar> + \<bar>sint az\<bar> < 2 ^ (int_bits pf - 1)"
  shows "totalAccel pf ax ay az = \<bar>sint ax\<bar> + \<bar>sint ay\<bar> + \<bar>sint az\<bar>"
proof -
  let ?n = "(2::int) ^ (int_bits pf - 1)"
  have p: "0 < ?n" by simp
  have a: "arduino_abs pf (sint ax) = \<bar>sint ax\<bar>" "arduino_abs pf (sint ay) = \<bar>sint ay\<bar>"
    "arduino_abs pf (sint az) = \<bar>sint az\<bar>"
    using assms by (auto intro!: arduino_abs_fits)
  have b: "c_int pf (\<bar>sint ax\<bar> + \<bar>sint ay\<bar>) = \<bar>sint ax\<bar> + \<bar>sint ay\<bar>"
    using assms p by (intro c_int_fits) linarith+
  have c: "c_int pf (\<bar>sint ax\<bar> + \<bar>sint ay\<bar> + \<bar>sint az\<bar>)
      = \<bar>sint ax\<bar> + \<bar>sint ay\<bar> + \<bar>sint az\<bar>"
    using assms p by (intro c_int_fits) linarith+
  show ?thesis by (simp add: totalAccel_def a b c)
qed

lemma totalAccel_avr_small:
  "\<bar>sint ax\<bar> + \<bar>sint ay\<bar> + \<bar>sint az\<bar> \<le> 32767 \<Longrightarrow>
   totalAccel avr ax ay az = \<bar>sint ax\<bar> + \<bar>sint ay\<bar> + \<bar>sint az\<bar>"
  by (intro totalAccel_exact) (simp add: avr_def)

lemma sint16_range: "- 32768 \<le> sint (w :: 16 word) \<and> sint w < 32768"
  using sint_ge [of w] sint_lt [of w] by simp

text \<open>
  On a board whose \<open>int\<close> has 18 bits or more (the 32-bit boards), the sum is the
  sum of the three absolute values, it is not negative, and the motion alert compares
  that sum with 15000.
\<close>

lemma totalAccel_wide:
  assumes "18 \<le> int_bits pf"
  shows "totalAccel pf ax ay az = \<bar>sint ax\<bar> + \<bar>sint ay\<bar> + \<bar>sint az\<bar>"
proof -
  have "(2::int) ^ 17 \<le> 2 ^ (int_bits pf - 1)"
    using assms by (intro power_increasing) auto
  moreover have "\<bar>sint ax\<bar> + \<bar>sint ay\<bar> + \<bar>sint az\<bar> \<le> 98304"
    using sint16_range [of ax] sint16_range [of ay] sint16_range [of az] by linarith
  ultimately show ?thesis
    by (intro totalAccel_exact) simp
qed

lemma totalAccel_wide_nonneg: "18 \<le> int_bits pf \<Longrightarrow> 0 \<le> totalAccel pf ax ay az"
  by (simp add: totalAccel_wide)

lemma motionAlert_wide:
  "18 \<le> int_bits pf \<Longrightarrow>
   motionAlert (totalAccel pf ax ay az) = (\<bar>sint ax\<bar> + \<bar>sint ay\<bar> + \<bar>sint az\<bar> > 15000)"
  by (simp add: totalAccel_wide motionAlert_def ACCEL_THRESHOLD_def)

lemma motionAlert_arm32_example:
  "motionAlert (totalAccel arm32 20000 20000 0)
   \<and> totalAccel arm32 (- 32768) 0 0 = 32768"
  by (simp add: totalAccel_def arm32_def c_int_def arduino_abs_def motionAlert_def
      ACCEL_THRESHOLD_def)

text \<open>
  C4. With a 16-bit \<open>int\<close> the sum of line 110 is formed in 16 bits before it is
  widened to \<open>long\<close>. The readings (20000, 20000, 0) have absolute values that add up
  to 40000, above 15000, but the sum the sketch computes is -25536 and the motion alert
  stays false.
\<close>

theorem motionAlert_avr_misses:
  "motionAlert (totalAccel avr 20000 20000 0) = False
   \<and> totalAccel avr 20000 20000 0 = - 25536
   \<and> \<bar>sint (20000 :: 16 word)\<bar> + \<bar>sint (20000 :: 16 word)\<bar> + \<bar>sint (0 :: 16 word)\<bar> = 40000"
  by (simp add: totalAccel_def avr_def c_int_def arduino_abs_def motionAlert_def
      ACCEL_THRESHOLD_def)

text \<open>
  C5. With a 16-bit \<open>int\<close> the macro \<open>abs\<close> negates -32768 in 16 bits, which
  gives -32768 again: for the readings (-32768, 0, 0) the sum the sketch computes is
  negative.
\<close>

theorem totalAccel_avr_negative:
  "totalAccel avr (- 32768) 0 0 = - 32768
   \<and> totalAccel avr (- 32768) 0 0 < 0"
  by (simp add: totalAccel_def avr_def c_int_def arduino_abs_def)

section \<open>One iteration of loop\<close>

lemma calls_idle:
  "\<not> reaches_evaluation r s \<Longrightarrow> calls_of_loop pf r s = [DigitalRead BUTTON_PIN, Millis]"
  by (simp add: calls_of_loop_def loop_idle)

lemma calls_quiet:
  "reaches_evaluation r s \<Longrightarrow> \<not> triggered (loop_alerts pf r s) \<Longrightarrow>
   calls_of_loop pf r s =
     DigitalRead BUTTON_PIN # (if button r = LOW then [Delay 100] else []) @ Millis # sensor_calls"
  by (simp add: calls_of_loop_def loop_quiet)

lemma calls_alert:
  assumes "reaches_evaluation r s" and "triggered (loop_alerts pf r s)"
  shows "\<exists>mid. calls_of_loop pf r s =
       DigitalRead BUTTON_PIN # (if button r = LOW then [Delay 100] else []) @ Millis # sensor_calls
         @ [DigitalWrite LED_RED HIGH, Tone BUZZER_PIN 1500 300] @ mid @
         [Delay 2000, NoTone BUZZER_PIN, DigitalWrite LED_RED LOW,
          DisplayClearDisplay, DisplayDisplay]
     \<and> list_all presentation_call mid \<and> \<not> list_ex sensor_read mid
     \<and> (SerialPrintln (Str manual_message) \<in> set mid) = pending r s"
proof -
  obtain out mid where l: "loop pf r s =
     s\<lparr>lastCheck := millis_at_stamp r, buttonPressed := False,
       outputs := (outputs s)(TRIG_PIN := LOW, LED_RED := LOW),
       tone_playing := None, oled_buffer := [], oled_panel := [],
       serial := serial s @ out,
       trace := trace s @ DigitalRead BUTTON_PIN # (if button r = LOW then [Delay 100] else [])
                  @ Millis # sensor_calls
                  @ [DigitalWrite LED_RED HIGH, Tone BUZZER_PIN 1500 300] @ mid @
                  [Delay 2000, NoTone BUZZER_PIN, DigitalWrite LED_RED LOW,
                   DisplayClearDisplay, DisplayDisplay]\<rparr>"
    and m: "list_all presentation_call mid" "\<not> list_ex sensor_read mid"
      "(SerialPrintln (Str manual_message) \<in> set mid) = pending r s"
    using loop_alert [OF assms] by blast
  have "calls_of_loop pf r s =
       DigitalRead BUTTON_PIN # (if button r = LOW then [Delay 100] else []) @ Millis # sensor_calls
         @ [DigitalWrite LED_RED HIGH, Tone BUZZER_PIN 1500 300] @ mid @
         [Delay 2000, NoTone BUZZER_PIN, DigitalWrite LED_RED LOW,
          DisplayClearDisplay, DisplayDisplay]"
    by (simp add: calls_of_loop_def l)
  with m show ?thesis by blast
qed

lemma presents_iff:
  "presents pf r s = (reaches_evaluation r s \<and> triggered (loop_alerts pf r s))"
proof (cases "reaches_evaluation r s")
  case False
  then show ?thesis by (simp add: presents_def calls_idle)
next
  case True
  show ?thesis
  proof (cases "triggered (loop_alerts pf r s)")
    case False
    with True show ?thesis
      by (simp add: presents_def calls_quiet sensor_calls_def)
  next
    case t: True
    from calls_alert [OF True t] obtain mid where
      "calls_of_loop pf r s =
       DigitalRead BUTTON_PIN # (if button r = LOW then [Delay 100] else []) @ Millis # sensor_calls
         @ [DigitalWrite LED_RED HIGH, Tone BUZZER_PIN 1500 300] @ mid @
         [Delay 2000, NoTone BUZZER_PIN, DigitalWrite LED_RED LOW,
          DisplayClearDisplay, DisplayDisplay]" by blast
    with True t show ?thesis by (simp add: presents_def)
  qed
qed


lemma triggered_iff:
  "triggered (determine_alerts p t h d l acc) =
     (p \<or> distanceAlert d \<or> tempAlert t \<or> lightAlert l \<or> humidityAlert h \<or> motionAlert acc)"
  by (simp add: determine_alerts_def alertTriggered_def)

lemma buttonPressed_loop: "buttonPressed (loop pf r s) = False"
  by (simp add: loop_eq evaluate_eq Let_def reaches_evaluation_iff poll_button_eq millis_def called_def)

lemma triggered_loop_alerts:
  "triggered (loop_alerts pf r s) =
     (pending r s \<or> distanceAlert (measured pf r) \<or> tempAlert (dht_temperature r)
      \<or> lightAlert (ldr r) \<or> humidityAlert (dht_humidity r)
      \<or> motionAlert (totalAccel pf (accel_x r) (accel_y r) (accel_z r)))"
  by (simp add: loop_alerts_def triggered_iff)

text \<open>The five concrete iterations from power-on: which of them present an alert.\<close>

lemma measured_avr:
  "measured avr obstacle_readings = Finite (15722349 / 2 ^ 20)"
  "measured avr timeout_readings = Finite (- 1)"
  "measured avr motion_readings = Finite (6553207 / 2 ^ 16)"
  "measured avr manual_readings = Finite (6553207 / 2 ^ 16)"
  "measured avr idle_readings = Finite (6553207 / 2 ^ 16)"
  by (simp_all add: measured_def getDistance_def Let_def of_c_int_def to_cm_avr
      obstacle_readings_def timeout_readings_def motion_readings_def manual_readings_def
      idle_readings_def)

lemma scenario_presents:
  "presents avr obstacle_readings power_on"
  "\<not> presents avr timeout_readings power_on"
  "presents avr motion_readings power_on"
  "presents avr manual_readings power_on"
  "\<not> presents avr idle_readings power_on"
  by (simp_all add: presents_iff reaches_evaluation_iff triggered_loop_alerts pending_iff
      measured_avr)
     (simp_all add: obstacle_readings_def timeout_readings_def motion_readings_def
      manual_readings_def idle_readings_def power_on_def avr_def
      of_c_int_def distanceAlert_def tempAlert_def lightAlert_def humidityAlert_def
      motionAlert_def totalAccel_def arduino_abs_def c_int_def f_greater_def
      DISTANCE_THRESHOLD_def TEMP_MIN_def TEMP_MAX_def LIGHT_THRESHOLD_def HUMIDITY_MIN_def
      HUMIDITY_MAX_def ACCEL_THRESHOLD_def)


lemma manual_message_printed_iff:
  "(SerialPrintln (Str manual_message) \<in> set (calls_of_loop pf r s)) = pending r s"
proof (cases "reaches_evaluation r s \<and> triggered (loop_alerts pf r s)")
  case True
  then obtain mid where "calls_of_loop pf r s =
       DigitalRead BUTTON_PIN # (if button r = LOW then [Delay 100] else []) @ Millis # sensor_calls
         @ [DigitalWrite LED_RED HIGH, Tone BUZZER_PIN 1500 300] @ mid @
         [Delay 2000, NoTone BUZZER_PIN, DigitalWrite LED_RED LOW,
          DisplayClearDisplay, DisplayDisplay]"
    and "(SerialPrintln (Str manual_message) \<in> set mid) = pending r s"
    using calls_alert [of r s pf] by blast
  then show ?thesis by (simp add: sensor_calls_def)
next
  case False
  then have np: "\<not> pending r s"
    by (auto simp: reaches_evaluation_iff pending_iff triggered_loop_alerts)
  show ?thesis
  proof (cases "reaches_evaluation r s")
    case True
    with False np show ?thesis
      by (simp add: calls_quiet sensor_calls_def)
  next
    case False
    with np show ?thesis by (simp add: calls_idle)
  qed
qed

text \<open>
  C6, as the code has it. \<open>buttonPressed\<close> is false after the part of \<open>loop\<close>
  that follows the early return, and after every run of \<open>loop\<close>. So a flag set in
  one iteration never carries into the next: the manual reason fires in an iteration, and
  its message is printed, exactly when the button reads LOW at that iteration's own poll.
  Lines 91 to 94 read the level of the pin, so a press that is still held at the next
  poll fires again.
\<close>

theorem manual_flag_reset:
  "buttonPressed (evaluate pf r s) = False
   \<and> buttonPressed (loop pf r s) = False
   \<and> pending r2 (loop pf r1 s) = (button r2 = LOW)
   \<and> manual (loop_alerts pf r2 (loop pf r1 s)) = (button r2 = LOW)
   \<and> (SerialPrintln (Str manual_message) \<in> set (calls_of_loop pf r2 (loop pf r1 s)))
       = (button r2 = LOW)"
proof -
  have "pending r2 (loop pf r1 s) = (button r2 = LOW)"
    by (simp add: pending_iff buttonPressed_loop)
  then show ?thesis
    by (simp add: buttonPressed_loop evaluate_eq Let_def loop_alerts_def determine_alerts_def
        manual_message_printed_iff)
qed

text \<open>
  The press of \<open>manual_readings\<close> released before the next poll: the next iteration
  (\<open>obstacle_readings\<close>, which presents an alert of its own) has no manual reason.
\<close>

theorem manual_flag_reset_witness:
  "button obstacle_readings = HIGH
   \<and> manual (loop_alerts avr manual_readings power_on)
   \<and> \<not> manual (loop_alerts avr obstacle_readings (loop avr manual_readings power_on))
   \<and> SerialPrintln (Str manual_message)
        \<notin> set (calls_of_loop avr obstacle_readings (loop avr manual_readings power_on))"
  using manual_flag_reset [of avr manual_readings power_on obstacle_readings manual_readings]
  by (simp add: loop_alerts_def determine_alerts_def pending_iff)
     (simp add: obstacle_readings_def manual_readings_def)

text \<open>
  C6 as the claim words it fails: one press, held from the poll of one iteration to the
  poll of the next, fires the manual reason in both. From power-on, both iterations reach
  the evaluation, both have the manual reason, and both print its message.
\<close>

theorem held_press_fires_twice:
  "button manual_readings = LOW \<and> button held_readings = LOW
   \<and> reaches_evaluation manual_readings power_on
   \<and> manual (loop_alerts avr manual_readings power_on)
   \<and> SerialPrintln (Str manual_message) \<in> set (calls_of_loop avr manual_readings power_on)
   \<and> reaches_evaluation held_readings (loop avr manual_readings power_on)
   \<and> manual (loop_alerts avr held_readings (loop avr manual_readings power_on))
   \<and> SerialPrintln (Str manual_message)
        \<in> set (calls_of_loop avr held_readings (loop avr manual_readings power_on))"
  by (simp add: manual_message_printed_iff reaches_evaluation_iff pending_iff loop_alerts_def
      determine_alerts_def manual_readings_def held_readings_def)



text \<open>
  C10. An iteration that presents an alert ends with the tone stopped, the LED pin LOW,
  the display buffer cleared and the cleared buffer sent to the panel; its last calls
  are the 2000 ms delay, \<open>noTone\<close>, the LED write, \<open>clearDisplay\<close> and
  \<open>display\<close>. The indicators are still off when the next iteration has polled the
  button and read the clock.
\<close>

theorem alert_ends_cleared:
  assumes "presents pf r s"
  shows "tone_playing (loop pf r s) = None
     \<and> outputs (loop pf r s) LED_RED = LOW
     \<and> oled_buffer (loop pf r s) = []
     \<and> oled_panel (loop pf r s) = []
     \<and> (\<exists>before. calls_of_loop pf r s =
           before @ [Delay 2000, NoTone BUZZER_PIN, DigitalWrite LED_RED LOW,
                     DisplayClearDisplay, DisplayDisplay])
     \<and> tone_playing (millis (poll_button r' (loop pf r s))) = None
     \<and> outputs (millis (poll_button r' (loop pf r s))) LED_RED = LOW
     \<and> oled_panel (millis (poll_button r' (loop pf r s))) = []"
proof -
  from assms have re: "reaches_evaluation r s" and tr: "triggered (loop_alerts pf r s)"
    by (simp_all add: presents_iff)
  obtain out mid where l: "loop pf r s =
     s\<lparr>lastCheck := millis_at_stamp r, buttonPressed := False,
       outputs := (outputs s)(TRIG_PIN := LOW, LED_RED := LOW),
       tone_playing := None, oled_buffer := [], oled_panel := [],
       serial := serial s @ out,
       trace := trace s @ DigitalRead BUTTON_PIN # (if button r = LOW then [Delay 100] else [])
                  @ Millis # sensor_calls
                  @ [DigitalWrite LED_RED HIGH, Tone BUZZER_PIN 1500 300] @ mid @
                  [Delay 2000, NoTone BUZZER_PIN, DigitalWrite LED_RED LOW,
                   DisplayClearDisplay, DisplayDisplay]\<rparr>"
    using loop_alert [OF re tr] by blast
  obtain mid' where "calls_of_loop pf r s =
       DigitalRead BUTTON_PIN # (if button r = LOW then [Delay 100] else []) @ Millis # sensor_calls
         @ [DigitalWrite LED_RED HIGH, Tone BUZZER_PIN 1500 300] @ mid' @
         [Delay 2000, NoTone BUZZER_PIN, DigitalWrite LED_RED LOW,
          DisplayClearDisplay, DisplayDisplay]"
    using calls_alert [OF re tr] by blast
  then have "calls_of_loop pf r s =
       (DigitalRead BUTTON_PIN # (if button r = LOW then [Delay 100] else []) @ Millis # sensor_calls
         @ [DigitalWrite LED_RED HIGH, Tone BUZZER_PIN 1500 300] @ mid') @
         [Delay 2000, NoTone BUZZER_PIN, DigitalWrite LED_RED LOW,
          DisplayClearDisplay, DisplayDisplay]"
    by simp
  then have "\<exists>before. calls_of_loop pf r s =
           before @ [Delay 2000, NoTone BUZZER_PIN, DigitalWrite LED_RED LOW,
                     DisplayClearDisplay, DisplayDisplay]"
    by (rule exI)
  then show ?thesis
    by (simp add: l poll_button_eq millis_def called_def)
qed

theorem alert_ends_cleared_witness:
  "presents avr manual_readings power_on
   \<and> tone_playing (loop avr manual_readings power_on) = None
   \<and> outputs (loop avr manual_readings power_on) LED_RED = LOW
   \<and> oled_buffer (loop avr manual_readings power_on) = []
   \<and> oled_panel (loop avr manual_readings power_on) = []"
  using alert_ends_cleared [OF scenario_presents(4)] scenario_presents(4)
  by simp

section \<open>getDistance\<close>

lemma to_cm_positive:
  assumes dr: "rounding (double_round pf)" and fr: "rounding (float_round pf)"
    and d: "1 \<le> duration"
  shows "1 / 64 \<le> to_cm pf duration"
proof -
  let ?D = "double_round pf" and ?F = "float_round pf"
  have mono: "\<And>x y. x \<le> y \<Longrightarrow> ?D x \<le> ?D y" "\<And>x y. x \<le> y \<Longrightarrow> ?F x \<le> ?F y"
    using dr fr unfolding rounding_def by blast+
  have fx: "?D 1 = 1" "?D (1 / 32) = 1 / 32" "?D (1 / 64) = 1 / 64" "?F (1 / 64) = 1 / 64"
    using dr fr unfolding rounding_def by blast+
  have "?D 1 \<le> ?D (of_int duration)"
    using d by (intro mono) simp
  then have a: "1 \<le> ?D (of_int duration)"
    by (simp only: fx)
  have "?D (1 / 32) \<le> ?D (34 / 1000)"
    by (intro mono) simp
  then have b: "1 / 32 \<le> ?D (34 / 1000)"
    by (simp only: fx)
  have "1 * (1 / 32) \<le> ?D (of_int duration) * ?D (34 / 1000)"
    using a b by (intro mult_mono) simp_all
  then have "?D (1 / 32) \<le> ?D (?D (of_int duration) * ?D (34 / 1000))"
    by (intro mono) (simp only: mult_1)
  then have c: "1 / 32 \<le> ?D (?D (of_int duration) * ?D (34 / 1000))"
    by (simp only: fx)
  have "(1 / 64 :: real) = (1 / 32) / 2"
    by simp
  also have "\<dots> \<le> ?D (?D (of_int duration) * ?D (34 / 1000)) / 2"
    using c by (intro divide_right_mono) simp_all
  finally have "?D (1 / 64) \<le> ?D (?D (?D (of_int duration) * ?D (34 / 1000)) / 2)"
    by (intro mono)
  then have e: "1 / 64 \<le> ?D (?D (?D (of_int duration) * ?D (34 / 1000)) / 2)"
    by (simp only: fx)
  have "?F (1 / 64) \<le> ?F (?D (?D (?D (of_int duration) * ?D (34 / 1000)) / 2))"
    using e by (intro mono)
  then show ?thesis
    by (simp only: fx to_cm_def)
qed

lemma duration_positive:
  assumes "0 \<le> sint (p :: 32 word)" and "p \<noteq> 0"
  shows "1 \<le> sint p"
proof -
  have "sint p \<noteq> 0" using assms(2) by (simp add: signed_eq_0_iff)
  with assms(1) show ?thesis by simp
qed

text \<open>
  C7. Provided the pulse length fits the signed \<open>long\<close> it is stored in (with the
  timeout of 30000 microseconds \<open>pulseIn\<close> returns nothing longer), \<open>getDistance\<close>
  returns -1 exactly when \<open>pulseIn\<close> returned 0. Otherwise it returns the rounded
  \<open>duration * 0.034 / 2\<close>, which is positive: -1 is the only value it returns that
  is not positive.
\<close>

theorem getDistance_sentinel:
  assumes "rounding (double_round pf)" and "rounding (float_round pf)"
    and "0 \<le> sint (echo_pulse r)"
  shows "(fst (getDistance pf r s) = Finite (- 1)) = (echo_pulse r = 0)
   \<and> (echo_pulse r \<noteq> 0 \<longrightarrow>
        fst (getDistance pf r s) =
          Finite (float_round pf (double_round pf
            (double_round pf (double_round pf (of_int (sint (echo_pulse r)))
               * double_round pf (34 / 1000)) / 2)))
        \<and> f_greater (fst (getDistance pf r s)) (Finite 0))
   \<and> (f_le (fst (getDistance pf r s)) (Finite 0) \<longrightarrow>
        echo_pulse r = 0 \<and> fst (getDistance pf r s) = Finite (- 1))"
proof (cases "echo_pulse r = 0")
  case True
  then show ?thesis
    by (simp add: getDistance_def Let_def of_c_int_def)
next
  case False
  then have "1 / 64 \<le> to_cm pf (sint (echo_pulse r))"
    using assms by (intro to_cm_positive duration_positive)
  then have "0 < to_cm pf (sint (echo_pulse r))" by simp
  moreover have "fst (getDistance pf r s) = Finite (to_cm pf (sint (echo_pulse r)))"
    using False by (simp add: getDistance_def Let_def signed_eq_0_iff)
  ultimately show ?thesis
    using False by (auto simp: f_greater_def to_cm_def)
qed

theorem getDistance_sentinel_witness:
  "rounding (double_round avr) \<and> rounding (float_round avr)
   \<and> 0 \<le> sint (echo_pulse obstacle_readings)
   \<and> echo_pulse obstacle_readings \<noteq> 0
   \<and> fst (getDistance avr obstacle_readings power_on) = Finite (15722349 / 2 ^ 20)
   \<and> 0 \<le> sint (echo_pulse timeout_readings)
   \<and> fst (getDistance avr timeout_readings power_on) = Finite (- 1)"
proof -
  have r: "rounding (double_round avr)" "rounding (float_round avr)"
    by (rule boards_rounding)+
  have p: "0 \<le> sint (echo_pulse obstacle_readings)" "echo_pulse obstacle_readings \<noteq> 0"
    "0 \<le> sint (echo_pulse timeout_readings)" "echo_pulse timeout_readings = 0"
    by (simp_all add: obstacle_readings_def timeout_readings_def)
  have "fst (getDistance avr obstacle_readings power_on) =
          Finite (float_round avr (double_round avr
            (double_round avr (double_round avr
               (of_int (sint (echo_pulse obstacle_readings)))
               * double_round avr (34 / 1000)) / 2)))"
    using getDistance_sentinel [OF r p(1), of power_on] p(2) by blast
  also have "\<dots> = Finite (to_cm avr 882)"
    by (simp add: to_cm_def obstacle_readings_def)
  finally have v: "fst (getDistance avr obstacle_readings power_on) = Finite (15722349 / 2 ^ 20)"
    by (simp only: to_cm_avr)
  have w: "fst (getDistance avr timeout_readings power_on) = Finite (- 1)"
    using getDistance_sentinel [OF r p(3), of power_on] p(4) by blast
  show ?thesis
    using r p v w by blast
qed

section \<open>setup\<close>

lemma while_true_None: "while_true s = None"
proof (rule ccontr)
  assume "while_true s \<noteq> None"
  then obtain t where h: "while_true s = Some t" by auto
  show False
    by (rule while_true.raw_induct [where P = "\<lambda>_ _. False", OF _ h]) blast
qed

lemma begin_hardware_eq:
  "begin_hardware s = s\<lparr>trace := trace s @ hardware_calls\<rparr>"
  by (simp add: begin_hardware_def hardware_calls_def run_def pinMode_def called_def)

lemma setup_returns:
  "display_begin_ok b \<Longrightarrow> setup_ino b s = Returns (welcome_screen b (begin_hardware s))"
  by (simp add: setup_ino_def Let_def)

text \<open>
  C9. When \<open>display.begin\<close> fails, \<open>setup\<close> prints "SSD1306 allocation failed!"
  and never returns: the board stays in the state after that print, the print is the last
  call ever made, and the sketch hangs there whatever readings would come, so no
  iteration of \<open>loop\<close> runs.
\<close>

theorem display_failure_halts:
  assumes "\<not> display_begin_ok b"
  shows "setup_ino b s
       = Hangs (Serial_println (Str ''SSD1306 allocation failed!'') (begin_hardware s))
   \<and> sketch pf b rs s
       = Hangs (Serial_println (Str ''SSD1306 allocation failed!'') (begin_hardware s))
   \<and> while_true (Serial_println (Str ''SSD1306 allocation failed!'') (begin_hardware s)) = None
   \<and> Serial_println (Str ''SSD1306 allocation failed!'') (begin_hardware s)
       = s\<lparr>serial := serial s @ [Str ''SSD1306 allocation failed!'', EOL],
           trace := trace s @ hardware_calls
                      @ [SerialPrintln (Str ''SSD1306 allocation failed!'')]\<rparr>"
  using assms
  by (simp add: setup_ino_def sketch_def Let_def while_true_None begin_hardware_eq
      Serial_println_def called_def)

theorem display_failure_halts_witness:
  "\<not> display_begin_ok \<lparr>display_begin_ok = False, mpu_connected = True\<rparr>
   \<and> sketch avr \<lparr>display_begin_ok = False, mpu_connected = True\<rparr>
        [manual_readings, obstacle_readings] power_on
       = Hangs (power_on\<lparr>serial := [Str ''SSD1306 allocation failed!'', EOL],
           trace := hardware_calls @ [SerialPrintln (Str ''SSD1306 allocation failed!'')]\<rparr>)"
proof -
  have t: "trace power_on = []" "serial power_on = []" by (simp_all add: power_on_def)
  show ?thesis
    using display_failure_halts [of "\<lparr>display_begin_ok = False, mpu_connected = True\<rparr>"
        power_on avr "[manual_readings, obstacle_readings]"]
    by (simp add: t)
qed

end
